theory Spec2Isabelle
  imports Complex_Main "HOL-Library.Monad_Syntax"
begin

section \<open>Values shared by Calib and FindCalibGrid\<close>

text \<open>
  The embedding follows the two translation units of the repository: the camera calibration
  (\<open>Calib\<close>) and the bowtie template bank (\<open>FindCalibGrid\<close>).

  Conventions of the embedding.
  \<^item> A C++ \<open>int\<close> is an \<open>int\<close>; signed overflow is undefined in C++ and lies outside the model.
  \<^item> A \<open>double\<close> or \<open>float\<close> is a \<open>real\<close>: rounding of the arithmetic is not modelled.
  \<^item> A function of the model returns an \<open>option\<close> where the C++ can leave defined
    behaviour: \<open>None\<close> stands for an out-of-range \<open>operator[]\<close> or \<open>Mat::at\<close>, or for a
    non-finite \<open>double\<close> (a division by zero) that the code goes on to use.
  \<^item> A caught exception is a branch that returns \<open>GC_EXCEPT\<close>.
  \<^item> Calls into OpenCV whose result the code does not determine (\<open>findHomography\<close>,
    \<open>matchTemplate\<close>, \<open>circle\<close>) and constants that the two translation units take from
    their headers (\<open>GC_BOWTIE_TEMPLATE_DIM\<close>, \<open>TEMPLATE_COUNT\<close>, ...) are parameters.
\<close>

datatype GC_STATUS = GC_OK | GC_ERR | GC_EXCEPT | GC_WARN

datatype cv_exception = CvException

record Point2d =
  xd :: real
  yd :: real

record Point =
  xi :: int
  yi :: int

record Size =
  width :: int
  height :: int

record Rect =
  rect_x :: int
  rect_y :: int
  rect_width :: int
  rect_height :: int

record LineEnds =
  top :: Point
  bot :: Point

definition mkPoint2d :: "real \<Rightarrow> real \<Rightarrow> Point2d" where
  "mkPoint2d a b = \<lparr>xd = a, yd = b\<rparr>"

definition mkPoint :: "int \<Rightarrow> int \<Rightarrow> Point" where
  "mkPoint a b = \<lparr>xi = a, yi = b\<rparr>"

definition mkSize :: "int \<Rightarrow> int \<Rightarrow> Size" where
  "mkSize w h = \<lparr>width = w, height = h\<rparr>"

definition mkRect :: "int \<Rightarrow> int \<Rightarrow> int \<Rightarrow> int \<Rightarrow> Rect" where
  "mkRect a b w h = \<lparr>rect_x = a, rect_y = b, rect_width = w, rect_height = h\<rparr>"

definition mkLineEnds :: "Point \<Rightarrow> Point \<Rightarrow> LineEnds" where
  "mkLineEnds t b = \<lparr>top = t, bot = b\<rparr>"

text \<open>\<open>std::vector::operator[]\<close> with the index the code computes; out of range is undefined.\<close>

definition vec_at :: "'a list \<Rightarrow> int \<Rightarrow> 'a option" where
  "vec_at xs i = (if 0 \<le> i \<and> i < int (length xs) then Some (xs ! nat i) else None)"

text \<open>
  \<open>cvRound\<close> of OpenCV rounds to the nearest integer, a tie to the even neighbour
  (it is \<open>lrint\<close>, or the SSE2 conversion, in the default rounding mode).
\<close>

definition cvRound :: "real \<Rightarrow> int" where
  "cvRound v =
     (let f = \<lfloor>v\<rfloor>; d = v - real_of_int f
      in if d < 1 / 2 then f
         else if 1 / 2 < d then f + 1
         else if even f then f else f + 1)"


subsection \<open>Matrices\<close>

text \<open>
  A \<open>cv::Mat\<close> is its size, its element type and its elements, addressed as OpenCV's
  \<open>Point\<close> does: column first. An image and a score map are both a \<open>Mat\<close>.
\<close>

datatype mat_type = CV_8UC1 | CV_8UC3 | CV_32FC1

record Mat =
  cols :: int
  rows :: int
  mtype :: mat_type
  elem :: "int \<Rightarrow> int \<Rightarrow> real"

text \<open>\<open>Mat::at<float>( Point( col, row ) )\<close>: a read outside the matrix is undefined.\<close>

definition Mat_at :: "Mat \<Rightarrow> int \<Rightarrow> int \<Rightarrow> real option" where
  "Mat_at m col row =
     (if 0 \<le> col \<and> col < cols m \<and> 0 \<le> row \<and> row < rows m
      then Some (elem m col row) else None)"

definition Mat_empty :: "Mat \<Rightarrow> bool" where
  "Mat_empty m = (cols m \<le> 0 \<or> rows m \<le> 0)"

section \<open>FindCalibGrid::SubpixelPointRefine\<close>

text \<open>
  The result point is a pair of quotients by \<open>total\<close>. With \<open>total = 0\<close> the C++ quotient
  is an infinity or a NaN, still returned with \<open>GC_OK\<close>: the model names that value
  \<open>NonFinitePoint\<close>.
\<close>

datatype fpoint = FinitePoint Point2d | NonFinitePoint

type_synonym subpix_acc = "real \<times> real \<times> real"

text \<open>The inner loop over \<open>col\<close>, on the accumulators \<open>total\<close>, \<open>totalX\<close>, \<open>totalY\<close> (here \<open>tot\<close>, \<open>totX\<close>, \<open>totY\<close>).\<close>

fun subpix_cols :: "Mat \<Rightarrow> int \<Rightarrow> int list \<Rightarrow> subpix_acc \<Rightarrow> subpix_acc option" where
  "subpix_cols m row [] acc = Some acc"
| "subpix_cols m row (col # cs) (tot, totX, totY) =
     (case Mat_at m col row of
        None \<Rightarrow> None
      | Some val \<Rightarrow>
          subpix_cols m row cs
            (tot + val, totX + val * real_of_int col, totY + val * real_of_int row))"

text \<open>The outer loop over \<open>row\<close>.\<close>

fun subpix_rows :: "Mat \<Rightarrow> int list \<Rightarrow> int list \<Rightarrow> subpix_acc \<Rightarrow> subpix_acc option" where
  "subpix_rows m [] cs acc = Some acc"
| "subpix_rows m (row # rs) cs acc =
     (case subpix_cols m row cs acc of
        None \<Rightarrow> None
      | Some acc' \<Rightarrow> subpix_rows m rs cs acc')"

text \<open>
  \<open>ptResult\<close> is a reference parameter: the function takes its old value and returns the
  new one with the status.
\<close>

definition SubpixelPointRefine :: "Mat \<Rightarrow> Point \<Rightarrow> fpoint \<Rightarrow> (GC_STATUS \<times> fpoint) option" where
  "SubpixelPointRefine matchSpace ptMax ptResult =
     (if 1 > xi ptMax \<or> 1 > yi ptMax \<or>
         cols matchSpace - 2 < xi ptMax \<or> rows matchSpace - 2 < yi ptMax
      then Some (GC_ERR, ptResult)
      else if CV_32FC1 \<noteq> mtype matchSpace
      then Some (GC_ERR, ptResult)
      else
        (case subpix_rows matchSpace [yi ptMax - 1, yi ptMax, yi ptMax + 1]
                [xi ptMax - 1, xi ptMax, xi ptMax + 1] (0, 0, 0) of
           None \<Rightarrow> None
         | Some (tot, totX, totY) \<Rightarrow>
             if tot = 0 then Some (GC_OK, NonFinitePoint)
             else Some (GC_OK, FinitePoint (mkPoint2d (totX / tot) (totY / tot)))))"

text \<open>
  The centroid as the specification words it: the sum of the nine scores of the 3x3
  neighbourhood weighted by column and by row, over the sum of the scores.
\<close>

definition neighbourhood3x3 :: "Point \<Rightarrow> (int \<times> int) list" where
  "neighbourhood3x3 p =
     [(c, r). r \<leftarrow> [yi p - 1, yi p, yi p + 1], c \<leftarrow> [xi p - 1, xi p, xi p + 1]]"

definition weighted_centroid :: "Mat \<Rightarrow> Point \<Rightarrow> fpoint" where
  "weighted_centroid m p =
     (let cells = neighbourhood3x3 p;
          w = (\<Sum>(c, r) \<leftarrow> cells. elem m c r)
      in if w = 0 then NonFinitePoint
         else FinitePoint
           (mkPoint2d ((\<Sum>(c, r) \<leftarrow> cells. elem m c r * real_of_int c) / w)
                      ((\<Sum>(c, r) \<leftarrow> cells. elem m c r * real_of_int r) / w)))"

text \<open>The peak is on the first or last row or column: its 3x3 neighbourhood leaves the map.\<close>

definition peak_on_border :: "Mat \<Rightarrow> Point \<Rightarrow> bool" where
  "peak_on_border m p =
     (xi p < 1 \<or> yi p < 1 \<or> cols m - 1 \<le> xi p \<or> rows m - 1 \<le> yi p)"

section \<open>Calib\<close>

record CalibModel =
  gridSize :: Size
  pixelPoints :: "Point2d list"
  worldPoints :: "Point2d list"
  moveSearchRegionLft :: Rect
  moveSearchRegionRgt :: Rect
  searchLines :: "LineEnds list"

text \<open>A homography is a \<open>cv::Mat\<close> of which the code only asks whether it is empty.\<close>

type_synonym homography = "real list list"

record Calib =
  m_model :: CalibModel
  m_imgSize :: Size
  m_matHomogPixToWorld :: homography
  m_matHomogWorldToPix :: homography

text \<open>
  What \<open>Calib\<close> takes from outside its translation unit: the constant
  \<open>GC_BOWTIE_TEMPLATE_DIM\<close> and \<open>CalibModel::clear\<close> of the types header, OpenCV's
  \<open>findHomography\<close> (it returns a matrix or throws), and the overlay drawing at the end of
  \<open>Calibrate\<close>, which reads the calibration, writes only \<open>imgOut\<close> and the status, and may throw.
\<close>

record calib_env =
  GC_BOWTIE_TEMPLATE_DIM :: int
  CalibModel_clear :: "CalibModel \<Rightarrow> CalibModel"
  findHomography :: "Point2d list \<Rightarrow> Point2d list \<Rightarrow> cv_exception + homography"
  drawOverlay :: "Calib \<Rightarrow> Mat \<Rightarrow> bool \<Rightarrow> bool \<Rightarrow> bool \<Rightarrow> GC_STATUS \<Rightarrow> cv_exception + GC_STATUS"

subsection \<open>Calib::MoveSearchROI and Calib::MoveRefPoint\<close>



subsection \<open>Calib::CalcSearchSwaths\<close>

text \<open>
  The loop \<open>for ( int i = 0; i <= widthTop; ++i )\<close>: each round appends one line built from
  the rounded running points, then advances them.
\<close>

fun swath_lines :: "nat \<Rightarrow> real \<Rightarrow> real \<Rightarrow> real \<Rightarrow> Point2d \<Rightarrow> Point2d \<Rightarrow> LineEnds list" where
  "swath_lines 0 xInc xIncBot yInc ptTop ptBot = []"
| "swath_lines (Suc n) xInc xIncBot yInc ptTop ptBot =
     mkLineEnds (mkPoint (cvRound (xd ptTop)) (cvRound (yd ptTop)))
                (mkPoint (cvRound (xd ptBot)) (cvRound (yd ptBot)))
     # swath_lines n xInc xIncBot yInc
         (mkPoint2d (xd ptTop + xInc) (yd ptTop + yInc))
         (mkPoint2d (xd ptBot + xIncBot) (yd ptBot + yInc))"

text \<open>
  The local \<open>height\<close> is \<open>height'\<close> here (\<open>height\<close> is the field of \<open>Size\<close>), and
  \<open>height >> 4\<close> is \<open>height' div 16\<close> (an arithmetic shift rounds down). \<open>yInc\<close> divides by
  \<open>height * 3\<close>: with \<open>height = 0\<close> it is not finite, and a second round of the loop would use
  it (\<open>None\<close>). \<open>xIncBot\<close> divides by \<open>widthTop\<close>; with \<open>widthTop = 0\<close> the loop ends before
  it is read.
\<close>

definition CalcSearchSwaths :: "Calib \<Rightarrow> (GC_STATUS \<times> Calib) option" where
  "CalcSearchSwaths c =
     (let pp = pixelPoints (m_model c);
          gw = width (gridSize (m_model c));
          gh = height (gridSize (m_model c))
      in if pp = [] \<or> worldPoints (m_model c) = [] \<or>
            length pp \<noteq> length (worldPoints (m_model c)) \<or> 2 > gw \<or> 4 > gh
         then Some (GC_ERR, c)
         else do {
           p0 \<leftarrow> vec_at pp 0;
           pTopRgt \<leftarrow> vec_at pp (gw - 1);
           pBotRgt \<leftarrow> vec_at pp (gw * gh - 1);
           pBotLft \<leftarrow> vec_at pp (gw * (gh - 1));
           let widthTop = cvRound ((xd pTopRgt - xd p0) / 3);
               widthBot = (xd pBotRgt - xd pBotLft) / 3;
               height' = cvRound ((yd pBotLft - yd p0) * 1.25);
               topLftX = xd p0 + real_of_int widthTop;
               topLftY = yd p0 - (real_of_int height' / 8) + real_of_int (height' div 16);
               botLftX = xd pBotLft + widthBot;
               botLftY = yd pBotLft + real_of_int height' / 8 + real_of_int (height' div 16);
               botLftY = min botLftY (real_of_int (height (m_imgSize c) - 1));
               xInc = 1;
               xIncBot = widthBot / real_of_int widthTop;
               yInc = (yd pTopRgt - yd p0) / (real_of_int height' * 3)
           in if height' = 0 \<and> 1 \<le> widthTop then None
              else Some (GC_OK,
                c\<lparr>m_model := (m_model c)
                     \<lparr>searchLines :=
                        swath_lines (nat (widthTop + 1)) xInc xIncBot yInc
                          (mkPoint2d topLftX topLftY) (mkPoint2d botLftX botLftY)\<rparr>\<rparr>)
         })"

subsection \<open>Calib::Calibrate\<close>

text \<open>The rectangle of side \<open>2 * GC_BOWTIE_TEMPLATE_DIM\<close> around a grid point, cut at the image.\<close>

definition moveSearchRegion :: "int \<Rightarrow> Size \<Rightarrow> Point2d \<Rightarrow> Rect" where
  "moveSearchRegion tdim imgSize p =
     mkRect (max 0 (cvRound (xd p) - tdim))
            (max 0 (cvRound (yd p) - tdim))
            (min (width imgSize - cvRound (xd p)) (tdim * 2))
            (min (height imgSize - cvRound (yd p)) (tdim * 2))"

text \<open>
  \<open>imgOut\<close> is not part of the calibration and is left out. The \<open>return GC_EXCEPT\<close> of the
  handler keeps whatever the \<open>try\<close> block had stored before the throw.
\<close>

definition Calibrate ::
  "calib_env \<Rightarrow> Calib \<Rightarrow> Point2d list \<Rightarrow> Point2d list \<Rightarrow> Size \<Rightarrow> Size \<Rightarrow> Mat \<Rightarrow>
   bool \<Rightarrow> bool \<Rightarrow> bool \<Rightarrow> (GC_STATUS \<times> Calib) option" where
  "Calibrate env c pixelPts worldPts gridSz imgSize img drawCalib drawMoveROIs drawSearchROI =
     (if length pixelPts \<noteq> length worldPts \<or> pixelPts = [] \<or> worldPts = [] \<or>
         width gridSz * height gridSz \<noteq> int (length pixelPts) \<or> 0 \<ge> width gridSz
      then Some (GC_ERR, c)
      else
        let c1 = c\<lparr>m_model := (CalibModel_clear env (m_model c))
                       \<lparr>gridSize := gridSz, pixelPoints := pixelPts, worldPoints := worldPts\<rparr>,
                   m_imgSize := imgSize\<rparr>
        in case findHomography env (pixelPoints (m_model c1)) (worldPoints (m_model c1)) of
             Inl e \<Rightarrow> Some (GC_EXCEPT, c1)
           | Inr h1 \<Rightarrow>
               let c2 = c1\<lparr>m_matHomogPixToWorld := h1\<rparr>
               in case findHomography env (worldPoints (m_model c2)) (pixelPoints (m_model c2)) of
                    Inl e \<Rightarrow> Some (GC_EXCEPT, c2)
                  | Inr h2 \<Rightarrow> do {
                      let c3 = c2\<lparr>m_matHomogWorldToPix := h2\<rparr>;
                      (retVal, c4) \<leftarrow> CalcSearchSwaths c3;
                      c5 \<leftarrow>
                        (if GC_OK = retVal then do {
                           pLft \<leftarrow> vec_at (pixelPoints (m_model c4)) 0;
                           pRgt \<leftarrow> vec_at (pixelPoints (m_model c4))
                                     (width (gridSize (m_model c4)) - 1);
                           Some (c4\<lparr>m_model := (m_model c4)
                             \<lparr>moveSearchRegionLft :=
                                moveSearchRegion (GC_BOWTIE_TEMPLATE_DIM env) imgSize pLft,
                              moveSearchRegionRgt :=
                                moveSearchRegion (GC_BOWTIE_TEMPLATE_DIM env) imgSize pRgt\<rparr>\<rparr>)
                         } else Some c4);
                      if (drawCalib \<or> drawMoveROIs \<or> drawSearchROI) \<and> \<not> Mat_empty img
                      then (case drawOverlay env c5 img drawCalib drawMoveROIs drawSearchROI retVal of
                              Inl e \<Rightarrow> Some (GC_EXCEPT, c5)
                            | Inr r \<Rightarrow> Some (r, c5))
                      else Some (retVal, c5)
                    })"

subsection \<open>Named quantities of the search swath\<close>














section \<open>FindCalibGrid\<close>

text \<open>
  A match candidate. Its position comes out of \<open>SubpixelPointRefine\<close>, so it is an
  \<open>fpoint\<close>: code that computes with a position that is not finite is outside the model.
\<close>

record TemplateBowtieItem =
  pt :: fpoint
  score :: real

fun the_point :: "fpoint \<Rightarrow> Point2d option" where
  "the_point (FinitePoint p) = Some p"
| "the_point NonFinitePoint = None"

record FindCalibGrid =
  m_templates :: "Mat list"
  m_matchSpace :: Mat
  m_matchSpaceSmall :: Mat
  m_matchItems :: "TemplateBowtieItem list"
  m_itemArray :: "TemplateBowtieItem list list"
  m_rectLeftMoveSearch :: Rect
  m_rectRightMoveSearch :: Rect

text \<open>
  What \<open>FindCalibGrid\<close> takes from outside its translation unit: the constants of its
  header, OpenCV's \<open>matchTemplate\<close> with \<open>TM_CCOEFF_NORMED\<close> (it returns the score map or
  throws) and OpenCV's filled \<open>circle\<close> (the map with a disk overwritten).
\<close>

record grid_env =
  TEMPLATE_COUNT :: int
  CALIB_POINT_ROW_COUNT :: nat
  CALIB_POINT_COL_COUNT :: nat
  TEMPLATE_MATCH_MIN_SCORE :: real
  cv_matchTemplate :: "Mat \<Rightarrow> Mat \<Rightarrow> cv_exception + Mat"
  cv_circle :: "Mat \<Rightarrow> Point \<Rightarrow> int \<Rightarrow> real \<Rightarrow> Mat"

subsection \<open>Operations of \<open>cv::Mat\<close> that the code determines\<close>


definition Mat_zeros :: "int \<Rightarrow> int \<Rightarrow> mat_type \<Rightarrow> Mat" where
  "Mat_zeros w h t = \<lparr>cols = w, rows = h, mtype = t, elem = (\<lambda>c r. 0)\<rparr>"

definition rect_contains :: "Rect \<Rightarrow> int \<Rightarrow> int \<Rightarrow> bool" where
  "rect_contains rect c r =
     (rect_x rect \<le> c \<and> c < rect_x rect + rect_width rect \<and>
      rect_y rect \<le> r \<and> r < rect_y rect + rect_height rect)"


text \<open>
  \<open>img( rect ).copyTo( dst( rect ) )\<close>: the pixels of \<open>rect\<close> are copied into \<open>dst\<close>. When the
  element types differ, \<open>copyTo\<close> allocates a fresh matrix for its target and \<open>dst\<close> keeps
  its pixels.
\<close>

definition copyTo_roi :: "Mat \<Rightarrow> Rect \<Rightarrow> Mat \<Rightarrow> Mat" where
  "copyTo_roi img rect dst =
     (if mtype img = mtype dst
      then dst\<lparr>elem := (\<lambda>c r. if rect_contains rect c r then elem img c r else elem dst c r)\<rparr>
      else dst)"




subsection \<open>FindCalibGrid::MatchTemplate\<close>

definition mkItem :: "fpoint \<Rightarrow> real \<Rightarrow> TemplateBowtieItem" where
  "mkItem p s = \<lparr>pt = p, score = s\<rparr>"






subsection \<open>FindCalibGrid::MatchRefine\<close>



subsection \<open>FindCalibGrid::SortPoints\<close>

text \<open>
  \<open>std::sort\<close> with a comparison \<open>lt\<close>, as an insertion sort: it returns one of the orders
  \<open>std::sort\<close> may return (elements that compare equal keep their order here).
\<close>

fun insert_by :: "('a \<Rightarrow> 'a \<Rightarrow> bool) \<Rightarrow> 'a \<Rightarrow> 'a list \<Rightarrow> 'a list" where
  "insert_by lt a [] = [a]"
| "insert_by lt a (b # bs) = (if lt b a then b # insert_by lt a bs else a # b # bs)"

definition std_sort :: "('a \<Rightarrow> 'a \<Rightarrow> bool) \<Rightarrow> 'a list \<Rightarrow> 'a list" where
  "std_sort lt xs = foldr (insert_by lt) xs []"

text \<open>The three comparisons of \<open>SortPoints\<close>. A comparison with a NaN is false.\<close>

definition item_x :: "TemplateBowtieItem \<Rightarrow> real option" where
  "item_x a = map_option xd (the_point (pt a))"

definition item_y :: "TemplateBowtieItem \<Rightarrow> real option" where
  "item_y a = map_option yd (the_point (pt a))"

definition by_score :: "TemplateBowtieItem \<Rightarrow> TemplateBowtieItem \<Rightarrow> bool" where
  "by_score a b = (score a > score b)"

definition by_y :: "TemplateBowtieItem \<Rightarrow> TemplateBowtieItem \<Rightarrow> bool" where
  "by_y a b = (case (item_y a, item_y b) of (Some u, Some v) \<Rightarrow> u < v | _ \<Rightarrow> False)"

definition by_x :: "TemplateBowtieItem \<Rightarrow> TemplateBowtieItem \<Rightarrow> bool" where
  "by_x a b = (case (item_x a, item_x b) of (Some u, Some v) \<Rightarrow> u < v | _ \<Rightarrow> False)"

text \<open>
  The first loop copies the first \<open>bowtieCount\<close> candidates, which are then sorted by
  score and copied back. Sorting positions that are not finite is outside the model.
\<close>

definition SortPoints ::
  "grid_env \<Rightarrow> FindCalibGrid \<Rightarrow> Size \<Rightarrow> (GC_STATUS \<times> FindCalibGrid) option" where
  "SortPoints env st sizeSearchImage =
     (let bowtieCount = CALIB_POINT_ROW_COUNT env * CALIB_POINT_COL_COUNT env
      in if bowtieCount > length (m_matchItems st) then Some (GC_ERR, st)
         else
           let tempItems = std_sort by_score (take bowtieCount (m_matchItems st));
               items1 = take bowtieCount tempItems
           in if \<exists>it \<in> set items1. pt it = NonFinitePoint then None
              else
                let items2 = std_sort by_y items1;
                    itemArray =
                      map (\<lambda>i. std_sort by_x
                                 (take (CALIB_POINT_COL_COUNT env)
                                    (drop (i * CALIB_POINT_COL_COUNT env) items2)))
                          [0 ..< CALIB_POINT_ROW_COUNT env]
                in do {
                  row0 \<leftarrow> vec_at itemArray 0;
                  itLft \<leftarrow> vec_at row0 0;
                  itRgt \<leftarrow> vec_at row0 (int (CALIB_POINT_COL_COUNT env) - 1);
                  pLft \<leftarrow> the_point (pt itLft);
                  pRgt \<leftarrow> the_point (pt itRgt);
                  let searchDim = cvRound (yd pRgt - yd pLft);
                      rgt_x = cvRound (xd pRgt) - (searchDim div 2);
                      rectLeft = mkRect (max 0 (cvRound (xd pLft) - (searchDim div 2)))
                                   (max 0 (cvRound (yd pLft) - (searchDim div 2)))
                                   searchDim searchDim;
                      rectRight = mkRect rgt_x
                                   (max 0 (cvRound (yd pRgt) - (searchDim div 2)))
                                   (if searchDim + rgt_x > width sizeSearchImage
                                    then width sizeSearchImage - rgt_x - 1 else searchDim)
                                   searchDim
                  in Some (GC_OK,
                       st\<lparr>m_matchItems := items2, m_itemArray := itemArray,
                          m_rectLeftMoveSearch := rectLeft,
                          m_rectRightMoveSearch := rectRight\<rparr>)
                })"

text \<open>
  The selection as the specification words it: the \<open>rows * columns\<close> candidates of highest
  score among all candidates.
\<close>

definition spec_top_scoring :: "nat \<Rightarrow> TemplateBowtieItem list \<Rightarrow> TemplateBowtieItem list" where
  "spec_top_scoring n items = take n (std_sort by_score items)"

subsection \<open>FindCalibGrid::SetMoveTargetROI\<close>


subsection \<open>FindCalibGrid::FindMoveTargets\<close>

text \<open>
  The image that is searched: zero everywhere, except for the pixels of the two move
  search rectangles, copied from the input image.
\<close>

definition moveSearchImage :: "Mat \<Rightarrow> Rect \<Rightarrow> Rect \<Rightarrow> Mat" where
  "moveSearchImage img rectLeft rectRight =
     copyTo_roi img rectRight
       (copyTo_roi img rectLeft (Mat_zeros (cols img) (rows img) CV_8UC1))"






section \<open>Calib::Save and Calib::Load\<close>

text \<open>
  The calibration file is modelled by what its JSON text holds: the tree that
  \<open>read_json\<close> builds. A key may be missing (\<open>None\<close>), since \<open>Load\<close> reads every number
  with a default. A file that is not JSON makes \<open>read_json\<close> throw.
\<close>

record json_point =
  pixelX :: "real option"
  pixelY :: "real option"
  worldX :: "real option"
  worldY :: "real option"

record json_rect =
  j_x :: "int option"
  j_y :: "int option"
  j_width :: "int option"
  j_height :: "int option"

record json_line =
  topX :: "int option"
  topY :: "int option"
  botX :: "int option"
  botY :: "int option"

record json_grid =
  j_columns :: "nat option"
  j_rows :: "nat option"
  j_points :: "json_point list option"

record json_calib =
  imageWidth :: "int option"
  imageHeight :: "int option"
  PixelToWorld :: "json_grid option"
  MoveSearchRegions :: "(string \<times> json_rect) list option"
  SearchLines :: "json_line list option"

datatype file_content = NotJson | Json json_calib

text \<open>The files by path, and the paths an \<open>ofstream\<close> can open for writing.\<close>

record filesystem =
  files :: "string \<Rightarrow> file_content option"
  openable :: "string \<Rightarrow> bool"

text \<open>
  A \<open>double\<close> written with \<open>fixed << setprecision( 3 )\<close> and read back: the nearest
  multiple of 0.001, a tie to the even one.
\<close>

definition fixed3 :: "real \<Rightarrow> real" where
  "fixed3 v = real_of_int (cvRound (v * 1000)) / 1000"

text \<open>\<open>ptree::get( key, default )\<close>.\<close>

definition get_or :: "'a \<Rightarrow> 'a option \<Rightarrow> 'a" where
  "get_or d v = (case v of None \<Rightarrow> d | Some a \<Rightarrow> a)"

text \<open>\<open>numeric_limits<int>::min()\<close>.\<close>

definition INT_MIN :: int where
  "INT_MIN = - 2147483648"

subsection \<open>Calib::Save\<close>

definition save_point :: "Point2d \<times> Point2d \<Rightarrow> json_point" where
  "save_point pw =
     \<lparr>pixelX = Some (fixed3 (xd (fst pw))), pixelY = Some (fixed3 (yd (fst pw))),
      worldX = Some (fixed3 (xd (snd pw))), worldY = Some (fixed3 (yd (snd pw)))\<rparr>"

definition save_rect :: "Rect \<Rightarrow> json_rect" where
  "save_rect r =
     \<lparr>j_x = Some (rect_x r), j_y = Some (rect_y r),
      j_width = Some (rect_width r), j_height = Some (rect_height r)\<rparr>"

definition save_line :: "LineEnds \<Rightarrow> json_line" where
  "save_line l =
     \<lparr>topX = Some (xi (top l)), topY = Some (yi (top l)),
      botX = Some (xi (bot l)), botY = Some (yi (bot l))\<rparr>"

text \<open>The tree of the text \<open>Save\<close> writes.\<close>

definition model_json :: "Calib \<Rightarrow> json_calib" where
  "model_json c =
     \<lparr>imageWidth = Some (width (m_imgSize c)),
      imageHeight = Some (height (m_imgSize c)),
      PixelToWorld = Some
        \<lparr>j_columns = Some (nat (width (gridSize (m_model c)))),
         j_rows = Some (nat (height (gridSize (m_model c)))),
         j_points = Some (map save_point
                            (zip (pixelPoints (m_model c)) (worldPoints (m_model c))))\<rparr>,
      MoveSearchRegions = Some
        [(''Left'', save_rect (moveSearchRegionLft (m_model c))),
         (''Right'', save_rect (moveSearchRegionRgt (m_model c)))],
      SearchLines = Some (map save_line (searchLines (m_model c)))\<rparr>"

definition Save :: "Calib \<Rightarrow> string \<Rightarrow> filesystem \<Rightarrow> GC_STATUS \<times> filesystem" where
  "Save c jsonCalFilepath fs =
     (if pixelPoints (m_model c) = [] \<or> worldPoints (m_model c) = [] \<or>
         length (pixelPoints (m_model c)) \<noteq> length (worldPoints (m_model c)) \<or>
         2 > width (gridSize (m_model c)) \<or> 4 > height (gridSize (m_model c)) \<or>
         searchLines (m_model c) = []
      then (GC_ERR, fs)
      else if openable fs jsonCalFilepath
      then (GC_OK, fs\<lparr>files := (files fs)(jsonCalFilepath \<mapsto> Json (model_json c))\<rparr>)
      else (GC_ERR, fs))"

subsection \<open>Calib::Load\<close>

definition load_pixel :: "json_point \<Rightarrow> Point2d" where
  "load_pixel n = mkPoint2d (get_or 0 (pixelX n)) (get_or 0 (pixelY n))"

definition load_world :: "json_point \<Rightarrow> Point2d" where
  "load_world n = mkPoint2d (get_or 0 (worldX n)) (get_or 0 (worldY n))"

definition load_rect :: "json_rect \<Rightarrow> Rect" where
  "load_rect n =
     mkRect (get_or 0 (j_x n)) (get_or 0 (j_y n)) (get_or 0 (j_width n)) (get_or 0 (j_height n))"

definition load_line :: "json_line \<Rightarrow> LineEnds" where
  "load_line n =
     mkLineEnds (mkPoint (get_or INT_MIN (topX n)) (get_or INT_MIN (topY n)))
                (mkPoint (get_or INT_MIN (botX n)) (get_or INT_MIN (botY n)))"

text \<open>The loop over the children of \<open>MoveSearchRegions\<close>.\<close>

fun load_regions :: "(string \<times> json_rect) list \<Rightarrow> CalibModel \<Rightarrow> CalibModel" where
  "load_regions [] m = m"
| "load_regions ((name, n) # rest) m =
     load_regions rest
       (if name = ''Left'' then m\<lparr>moveSearchRegionLft := load_rect n\<rparr>
        else if name = ''Right'' then m\<lparr>moveSearchRegionRgt := load_rect n\<rparr>
        else m)"

text \<open>
  A missing child makes \<open>get_child\<close> throw; the handler returns \<open>GC_EXCEPT\<close> with what has
  been read so far. \<open>Calibrate\<close> is called with empty images, so it draws nothing, whatever
  the default of its last argument.
\<close>

definition Load :: "calib_env \<Rightarrow> filesystem \<Rightarrow> Calib \<Rightarrow> string \<Rightarrow> (GC_STATUS \<times> Calib) option" where
  "Load env fs c jsonCalFilepath =
     (case files fs jsonCalFilepath of
        None \<Rightarrow> Some (GC_ERR, c)
      | Some NotJson \<Rightarrow> Some (GC_EXCEPT, c)
      | Some (Json ptreeTop) \<Rightarrow>
          let c1 = c\<lparr>m_imgSize := mkSize (get_or 0 (imageWidth ptreeTop))
                                        (get_or 0 (imageHeight ptreeTop))\<rparr>
          in case PixelToWorld ptreeTop of
               None \<Rightarrow> Some (GC_EXCEPT, c1)
             | Some ptreeCalib \<Rightarrow>
          let cols' = get_or 2 (j_columns ptreeCalib);
              rows' = get_or 4 (j_rows ptreeCalib);
              c2 = c1\<lparr>m_model := (m_model c1)\<lparr>pixelPoints := [], worldPoints := []\<rparr>\<rparr>
          in case j_points ptreeCalib of
               None \<Rightarrow> Some (GC_EXCEPT, c2)
             | Some nodes \<Rightarrow>
          let c3 = c2\<lparr>m_model := (m_model c2)\<lparr>pixelPoints := map load_pixel nodes,
                                                 worldPoints := map load_world nodes\<rparr>\<rparr>
          in case MoveSearchRegions ptreeTop of
               None \<Rightarrow> Some (GC_EXCEPT, c3)
             | Some regions \<Rightarrow>
          let c4 = c3\<lparr>m_model := (load_regions regions (m_model c3))\<lparr>searchLines := []\<rparr>\<rparr>
          in case SearchLines ptreeTop of
               None \<Rightarrow> Some (GC_EXCEPT, c4)
             | Some lineNodes \<Rightarrow>
          let c5 = c4\<lparr>m_model := (m_model c4)\<lparr>searchLines := map load_line lineNodes\<rparr>\<rparr>
          in if cols' * rows' \<noteq> length (pixelPoints (m_model c5)) then Some (GC_ERR, c5)
             else
               let c6 = c5\<lparr>m_model := (m_model c5)
                             \<lparr>gridSize := mkSize (int cols') (int rows')\<rparr>\<rparr>
               in Calibrate env c6 (pixelPoints (m_model c6)) (worldPoints (m_model c6))
                    (gridSize (m_model c6)) (m_imgSize c6)
                    (Mat_zeros 0 0 CV_8UC1) False False False)"

text \<open>What \<open>Load\<close> hands to \<open>Calibrate\<close> when it reads a file that \<open>Save\<close> wrote.\<close>

definition loaded_pixels :: "Calib \<Rightarrow> Point2d list" where
  "loaded_pixels c =
     map load_pixel (map save_point (zip (pixelPoints (m_model c)) (worldPoints (m_model c))))"

definition loaded_worlds :: "Calib \<Rightarrow> Point2d list" where
  "loaded_worlds c =
     map load_world (map save_point (zip (pixelPoints (m_model c)) (worldPoints (m_model c))))"

section \<open>Concrete inputs\<close>

text \<open>The inputs at which the theorems below are instantiated.\<close>

definition env0 :: calib_env where
  "env0 =
     \<lparr>GC_BOWTIE_TEMPLATE_DIM = 40,
      CalibModel_clear = (\<lambda>m. m\<lparr>pixelPoints := [], worldPoints := [], searchLines := []\<rparr>),
      findHomography = (\<lambda>a b. Inr [[1, 0, 0], [0, 1, 0], [0, 0, 1]]),
      drawOverlay = (\<lambda>c img a b d r. Inr r)\<rparr>"


definition model0 :: CalibModel where
  "model0 =
     \<lparr>gridSize = mkSize 0 0, pixelPoints = [], worldPoints = [],
      moveSearchRegionLft = mkRect 10 20 30 40, moveSearchRegionRgt = mkRect 50 20 30 40,
      searchLines = []\<rparr>"

text \<open>An uncalibrated object that holds two move search rectangles.\<close>

definition calib0 :: Calib where
  "calib0 =
     \<lparr>m_model = model0, m_imgSize = mkSize 0 0,
      m_matHomogPixToWorld = [], m_matHomogWorldToPix = []\<rparr>"




definition noImage :: Mat where
  "noImage = \<lparr>cols = 0, rows = 0, mtype = CV_8UC1, elem = (\<lambda>c r. 0)\<rparr>"

text \<open>A 3 by 3 score map with its peak in the middle.\<close>

definition map3x3 :: Mat where
  "map3x3 = \<lparr>cols = 3, rows = 3, mtype = CV_32FC1,
              elem = (\<lambda>c r. if c = 1 \<and> r = 1 then 1 else 1 / 2)\<rparr>"

text \<open>A filled disk as \<open>circle\<close>: the elements within the radius take the colour.\<close>

definition disk_fill :: "Mat \<Rightarrow> Point \<Rightarrow> int \<Rightarrow> real \<Rightarrow> Mat" where
  "disk_fill m p rad v =
     m\<lparr>elem := (\<lambda>c r. if (c - xi p) * (c - xi p) + (r - yi p) * (r - yi p) \<le> rad * rad
                       then v else elem m c r)\<rparr>"

definition template20 :: Mat where
  "template20 = \<lparr>cols = 20, rows = 20, mtype = CV_8UC1, elem = (\<lambda>c r. 224)\<rparr>"


text \<open>Surroundings in which every correlation yields the 3 by 3 map \<open>map3x3\<close>.\<close>

definition genv0 :: grid_env where
  "genv0 =
     \<lparr>TEMPLATE_COUNT = 1, CALIB_POINT_ROW_COUNT = 4, CALIB_POINT_COL_COUNT = 2,
      TEMPLATE_MATCH_MIN_SCORE = 1 / 2,
      cv_matchTemplate = (\<lambda>img t. Inr map3x3), cv_circle = disk_fill\<rparr>"

definition grid0_state :: FindCalibGrid where
  "grid0_state =
     \<lparr>m_templates = [template20],
      m_matchSpace = Mat_zeros 81 81 CV_32FC1,
      m_matchSpaceSmall = Mat_zeros 11 11 CV_32FC1,
      m_matchItems = [], m_itemArray = [],
      m_rectLeftMoveSearch = mkRect 0 0 5 5, m_rectRightMoveSearch = mkRect 10 0 5 5\<rparr>"


text \<open>
  Nine candidates: the eight markers of a 2 by 4 grid, and a ninth one with the highest
  score of all.
\<close>

definition items9 :: "TemplateBowtieItem list" where
  "items9 =
     [mkItem (FinitePoint (mkPoint2d 50 11)) (67 / 100),
      mkItem (FinitePoint (mkPoint2d 10 10)) (66 / 100),
      mkItem (FinitePoint (mkPoint2d 10 30)) (65 / 100),
      mkItem (FinitePoint (mkPoint2d 50 31)) (64 / 100),
      mkItem (FinitePoint (mkPoint2d 50 51)) (63 / 100),
      mkItem (FinitePoint (mkPoint2d 10 50)) (62 / 100),
      mkItem (FinitePoint (mkPoint2d 10 70)) (61 / 100),
      mkItem (FinitePoint (mkPoint2d 50 71)) (60 / 100),
      mkItem (FinitePoint (mkPoint2d 30 90)) (99 / 100)]"

definition sorted8 :: "TemplateBowtieItem list" where
  "sorted8 =
     [mkItem (FinitePoint (mkPoint2d 10 10)) (66 / 100),
      mkItem (FinitePoint (mkPoint2d 50 11)) (67 / 100),
      mkItem (FinitePoint (mkPoint2d 10 30)) (65 / 100),
      mkItem (FinitePoint (mkPoint2d 50 31)) (64 / 100),
      mkItem (FinitePoint (mkPoint2d 10 50)) (62 / 100),
      mkItem (FinitePoint (mkPoint2d 50 51)) (63 / 100),
      mkItem (FinitePoint (mkPoint2d 10 70)) (61 / 100),
      mkItem (FinitePoint (mkPoint2d 50 71)) (60 / 100)]"

definition array8 :: "TemplateBowtieItem list list" where
  "array8 =
     [[mkItem (FinitePoint (mkPoint2d 10 10)) (66 / 100),
       mkItem (FinitePoint (mkPoint2d 50 11)) (67 / 100)],
      [mkItem (FinitePoint (mkPoint2d 10 30)) (65 / 100),
       mkItem (FinitePoint (mkPoint2d 50 31)) (64 / 100)],
      [mkItem (FinitePoint (mkPoint2d 10 50)) (62 / 100),
       mkItem (FinitePoint (mkPoint2d 50 51)) (63 / 100)],
      [mkItem (FinitePoint (mkPoint2d 10 70)) (61 / 100),
       mkItem (FinitePoint (mkPoint2d 50 71)) (60 / 100)]]"

definition sort_state :: FindCalibGrid where
  "sort_state = grid0_state\<lparr>m_matchItems := items9\<rparr>"



text \<open>
  A 20 by 3 score map, as a 20 by 20 template gives on a 39 by 22 image: its greatest
  score 0.9 in the first column, the next one 0.8 at \<open>(18, 1)\<close>, and 0.1 elsewhere.
\<close>

definition scoreMapB :: Mat where
  "scoreMapB =
     \<lparr>cols = 20, rows = 3, mtype = CV_32FC1,
      elem = (\<lambda>c r. if c = 0 \<and> r = 1 then 9 / 10
                     else if c = 18 \<and> r = 1 then 8 / 10 else 1 / 10)\<rparr>"

definition image39 :: Mat where
  "image39 = \<lparr>cols = 39, rows = 22, mtype = CV_8UC1, elem = (\<lambda>c r. 128)\<rparr>"


text \<open>
  A search for the two move targets: a 59 by 32 image, whose correlation with a 20 by 20
  template is a 40 by 13 map with the scores 0.9 at \<open>(30, 1)\<close> and 0.8 at \<open>(5, 1)\<close>; the
  correlation of a 30 by 30 window is an 11 by 11 map with one peak in its middle.
\<close>

definition scoreMapC :: Mat where
  "scoreMapC =
     \<lparr>cols = 40, rows = 13, mtype = CV_32FC1,
      elem = (\<lambda>c r. if c = 30 \<and> r = 1 then 9 / 10
                     else if c = 5 \<and> r = 1 then 8 / 10 else 0)\<rparr>"

definition small11 :: Mat where
  "small11 =
     \<lparr>cols = 11, rows = 11, mtype = CV_32FC1,
      elem = (\<lambda>c r. if c = 5 \<and> r = 5 then 95 / 100 else 0)\<rparr>"

definition image59 :: Mat where
  "image59 = \<lparr>cols = 59, rows = 32, mtype = CV_8UC1, elem = (\<lambda>c r. 128)\<rparr>"

text \<open>The same image with one pixel changed outside the two move search rectangles.\<close>

definition image59' :: Mat where
  "image59' = image59\<lparr>elem := (\<lambda>c r. if c = 50 \<and> r = 25 then 7 else 128)\<rparr>"



text \<open>
  A 2 by 4 grid whose top row is 1.5004 pixels wide, the calibration \<open>Calibrate\<close> makes of
  it in a 640 by 480 image, and the calibration \<open>Load\<close> makes of the file \<open>Save\<close> writes.
\<close>

definition gridS :: "Point2d list" where
  "gridS =
     [mkPoint2d 0 0, mkPoint2d (15004 / 10000) 0, mkPoint2d 0 16, mkPoint2d (15004 / 10000) 16,
      mkPoint2d 0 32, mkPoint2d (15004 / 10000) 32, mkPoint2d 0 64, mkPoint2d (15004 / 10000) 64]"

definition gridL :: "Point2d list" where
  "gridL =
     [mkPoint2d 0 0, mkPoint2d (3 / 2) 0, mkPoint2d 0 16, mkPoint2d (3 / 2) 16,
      mkPoint2d 0 32, mkPoint2d (3 / 2) 32, mkPoint2d 0 64, mkPoint2d (3 / 2) 64]"

definition identity3 :: homography where
  "identity3 = [[1, 0, 0], [0, 1, 0], [0, 0, 1]]"

definition calibS :: Calib where
  "calibS =
     \<lparr>m_model =
        \<lparr>gridSize = mkSize 2 4, pixelPoints = gridS, worldPoints = gridS,
         moveSearchRegionLft = mkRect 0 0 80 80, moveSearchRegionRgt = mkRect 0 0 80 80,
         searchLines = [mkLineEnds (mkPoint 1 (- 5)) (mkPoint 1 79),
                        mkLineEnds (mkPoint 2 (- 5)) (mkPoint 1 79)]\<rparr>,
      m_imgSize = mkSize 640 480,
      m_matHomogPixToWorld = identity3, m_matHomogWorldToPix = identity3\<rparr>"

definition calibL :: Calib where
  "calibL =
     \<lparr>m_model =
        \<lparr>gridSize = mkSize 2 4, pixelPoints = gridL, worldPoints = gridL,
         moveSearchRegionLft = mkRect 0 0 80 80, moveSearchRegionRgt = mkRect 0 0 80 80,
         searchLines = [mkLineEnds (mkPoint 0 (- 5)) (mkPoint 0 79)]\<rparr>,
      m_imgSize = mkSize 640 480,
      m_matHomogPixToWorld = identity3, m_matHomogWorldToPix = identity3\<rparr>"

definition disk0 :: filesystem where
  "disk0 = \<lparr>files = (\<lambda>p. None), openable = (\<lambda>p. True)\<rparr>"

definition diskS :: filesystem where
  "diskS = disk0\<lparr>files := (files disk0)(''cal.json'' \<mapsto> Json (model_json calibS))\<rparr>"

definition diskL :: filesystem where
  "diskL = disk0\<lparr>files := (files disk0)(''cal.json'' \<mapsto> Json (model_json calibL))\<rparr>"

section \<open>Proofs\<close>

subsection \<open>Rounding\<close>

lemma cvRound_of_int [simp]: "cvRound (real_of_int k) = k"
  by (simp add: cvRound_def)

lemma cvRound_numeral [simp]:
  "cvRound (numeral k) = numeral k" "cvRound 0 = 0" "cvRound 1 = 1"
  "cvRound (- numeral k) = - numeral k"
  using cvRound_of_int [of "numeral k"] cvRound_of_int [of 0] cvRound_of_int [of 1]
    cvRound_of_int [of "- numeral k"]
  by simp_all

lemma cvRound_near: "\<bar>real_of_int (cvRound v) - v\<bar> \<le> 1 / 2"
  unfolding cvRound_def Let_def by (auto; linarith)

subsection \<open>SubpixelPointRefine\<close>

lemma subpix_rows_in_bounds:
  assumes "1 \<le> xi p" "1 \<le> yi p" "xi p \<le> cols m - 2" "yi p \<le> rows m - 2"
  shows "subpix_rows m [yi p - 1, yi p, yi p + 1] [xi p - 1, xi p, xi p + 1] (0, 0, 0) =
     Some (\<Sum>(c, r) \<leftarrow> neighbourhood3x3 p. elem m c r,
           \<Sum>(c, r) \<leftarrow> neighbourhood3x3 p. elem m c r * real_of_int c,
           \<Sum>(c, r) \<leftarrow> neighbourhood3x3 p. elem m c r * real_of_int r)"
  using assms by (simp add: Mat_at_def neighbourhood3x3_def algebra_simps)


text \<open>
  C10. \<open>SubpixelPointRefine\<close> never reads outside the score map (its result is never
  \<open>None\<close>); it returns an error exactly when the peak is on the border of the map or the
  map is not \<open>CV_32FC1\<close>, and then leaves the result point alone; otherwise it returns
  \<open>GC_OK\<close> with the score-weighted centroid of the 3x3 neighbourhood of the peak.
\<close>

theorem SubpixelPointRefine_centroid:
  "\<exists>s q. SubpixelPointRefine m p r = Some (s, q) \<and>
     (s = GC_ERR \<longleftrightarrow> (peak_on_border m p \<or> mtype m \<noteq> CV_32FC1)) \<and>
     (s \<noteq> GC_ERR \<longrightarrow> s = GC_OK \<and> q = weighted_centroid m p) \<and>
     (s = GC_ERR \<longrightarrow> q = r)"
proof (cases "peak_on_border m p \<or> mtype m \<noteq> CV_32FC1")
  case True
  then have "SubpixelPointRefine m p r = Some (GC_ERR, r)"
    by (auto simp: SubpixelPointRefine_def peak_on_border_def)
  with True show ?thesis by simp
next
  case False
  then have b: "1 \<le> xi p" "1 \<le> yi p" "xi p \<le> cols m - 2" "yi p \<le> rows m - 2"
    and t: "mtype m = CV_32FC1"
    by (auto simp: peak_on_border_def)
  have "SubpixelPointRefine m p r = Some (GC_OK, weighted_centroid m p)"
    using b t
    by (simp add: SubpixelPointRefine_def subpix_rows_in_bounds [OF b] weighted_centroid_def
          Let_def del: subpix_rows.simps subpix_cols.simps)
  with False show ?thesis by simp
qed

theorem SubpixelPointRefine_centroid_witness:
  "\<not> peak_on_border map3x3 (mkPoint 1 1) \<and> mtype map3x3 = CV_32FC1 \<and>
   SubpixelPointRefine map3x3 (mkPoint 1 1) NonFinitePoint
     = Some (GC_OK, FinitePoint (mkPoint2d 1 1)) \<and>
   weighted_centroid map3x3 (mkPoint 1 1) = FinitePoint (mkPoint2d 1 1)"
proof -
  have nb: "\<not> peak_on_border map3x3 (mkPoint 1 1)" and ty: "mtype map3x3 = CV_32FC1"
    by (simp_all add: peak_on_border_def map3x3_def mkPoint_def)
  have wc: "weighted_centroid map3x3 (mkPoint 1 1) = FinitePoint (mkPoint2d 1 1)"
    by (simp add: weighted_centroid_def neighbourhood3x3_def map3x3_def mkPoint_def Let_def)
  from SubpixelPointRefine_centroid [of map3x3 "mkPoint 1 1" NonFinitePoint] nb ty wc
  show ?thesis by auto
qed

subsection \<open>The accessors\<close>




subsection \<open>Calibrate: rejected arguments\<close>



subsection \<open>The search swath\<close>












subsection \<open>MatchRefine\<close>

lemma mk_sel [simp]:
  "xd (mkPoint2d a b) = a" "yd (mkPoint2d a b) = b"
  "xi (mkPoint i j) = i" "yi (mkPoint i j) = j"
  "width (mkSize i j) = i" "height (mkSize i j) = j"
  "rect_x (mkRect i j k l) = i" "rect_y (mkRect i j k l) = j"
  "rect_width (mkRect i j k l) = k" "rect_height (mkRect i j k l) = l"
  "top (mkLineEnds t b') = t" "bot (mkLineEnds t b') = b'"
  "pt (mkItem f v) = f" "score (mkItem f v) = v"
  by (simp_all add: mkPoint2d_def mkPoint_def mkSize_def mkRect_def mkLineEnds_def mkItem_def)

lemma the_point_Some [simp]: "the_point f = Some p \<longleftrightarrow> f = FinitePoint p"
  by (cases f) auto

lemma the_point_None [simp]: "the_point f = None \<longleftrightarrow> f = NonFinitePoint"
  by (cases f) auto







lemma genv0_fields:
  "TEMPLATE_COUNT genv0 = 1" "cv_matchTemplate genv0 = (\<lambda>img t. Inr map3x3)"
  "cv_circle genv0 = disk_fill" "TEMPLATE_MATCH_MIN_SCORE genv0 = 1 / 2"
  "CALIB_POINT_ROW_COUNT genv0 = 4" "CALIB_POINT_COL_COUNT genv0 = 2"
  by (simp_all add: genv0_def)




subsection \<open>SortPoints\<close>

lemma sort_state_fields:
  "m_matchItems sort_state = items9"
  by (simp add: sort_state_def)

lemma take8_items9:
  "take 8 items9 =
     [mkItem (FinitePoint (mkPoint2d 50 11)) (67 / 100),
      mkItem (FinitePoint (mkPoint2d 10 10)) (66 / 100),
      mkItem (FinitePoint (mkPoint2d 10 30)) (65 / 100),
      mkItem (FinitePoint (mkPoint2d 50 31)) (64 / 100),
      mkItem (FinitePoint (mkPoint2d 50 51)) (63 / 100),
      mkItem (FinitePoint (mkPoint2d 10 50)) (62 / 100),
      mkItem (FinitePoint (mkPoint2d 10 70)) (61 / 100),
      mkItem (FinitePoint (mkPoint2d 50 71)) (60 / 100)]"
  by (simp add: items9_def)

lemma by_simps [simp]:
  "by_score (mkItem f u) (mkItem g v) = (u > v)"
  "by_y (mkItem (FinitePoint p) u) (mkItem (FinitePoint q) v) = (yd p < yd q)"
  "by_x (mkItem (FinitePoint p) u) (mkItem (FinitePoint q) v) = (xd p < xd q)"
  by (simp_all add: by_score_def by_y_def by_x_def item_x_def item_y_def)

lemma items9_by_score: "std_sort by_score (take 8 items9) = take 8 items9"
  unfolding take8_items9 by (simp add: std_sort_def)

lemma items9_by_y: "std_sort by_y (take 8 items9) = sorted8"
  unfolding take8_items9 sorted8_def by (simp add: std_sort_def)

lemma mkItem_inject [simp]: "mkItem f u = mkItem g v \<longleftrightarrow> f = g \<and> u = v"
  by (auto simp: mkItem_def)

lemma mkPoint2d_inject [simp]: "mkPoint2d a b = mkPoint2d c d \<longleftrightarrow> a = c \<and> b = d"
  by (auto simp: mkPoint2d_def)

lemma items9_finite: "\<not> (\<exists>it \<in> set (take 8 (take 8 items9)). pt it = NonFinitePoint)"
  unfolding take8_items9 by simp

lemma items9_rows:
  "map (\<lambda>i. std_sort by_x (take 2 (drop (i * 2) sorted8))) [0 ..< 4] = array8"
  by (simp add: sorted8_def array8_def std_sort_def upt_rec [of 0] upt_rec [of 1]
        upt_rec [of 2] upt_rec [of 3] eval_nat_numeral)

text \<open>
  C6 at nine candidates of which the last has the highest score. \<open>SortPoints\<close> succeeds
  and keeps the first eight: the ninth is in none of the rows, although it is the first
  of the eight candidates of highest score.
\<close>

theorem SortPoints_keeps_first_not_best:
  "SortPoints genv0 sort_state (mkSize 100 100)
     = Some (GC_OK,
         sort_state\<lparr>m_matchItems := sorted8, m_itemArray := array8,
                    m_rectLeftMoveSearch := mkRect 10 10 1 1,
                    m_rectRightMoveSearch := mkRect 50 11 1 1\<rparr>) \<and>
   mkItem (FinitePoint (mkPoint2d 30 90)) (99 / 100) \<notin> set sorted8 \<and>
   mkItem (FinitePoint (mkPoint2d 30 90)) (99 / 100) \<notin> set (concat array8) \<and>
   hd (spec_top_scoring 8 items9) = mkItem (FinitePoint (mkPoint2d 30 90)) (99 / 100)"
proof -
  have run: "SortPoints genv0 sort_state (mkSize 100 100)
     = Some (GC_OK,
         sort_state\<lparr>m_matchItems := sorted8, m_itemArray := array8,
                    m_rectLeftMoveSearch := mkRect 10 10 1 1,
                    m_rectRightMoveSearch := mkRect 50 11 1 1\<rparr>)"
    unfolding SortPoints_def Let_def
    apply (simp add: genv0_fields sort_state_fields items9_by_score items9_by_y items9_finite
             items9_rows)
    apply (simp add: items9_def array8_def vec_at_def)
    done
  have a: "mkItem (FinitePoint (mkPoint2d 30 90)) (99 / 100) \<notin> set sorted8"
    by (simp add: sorted8_def)
  have b: "mkItem (FinitePoint (mkPoint2d 30 90)) (99 / 100) \<notin> set (concat array8)"
    by (simp add: array8_def)
  have c: "hd (spec_top_scoring 8 items9) = mkItem (FinitePoint (mkPoint2d 30 90)) (99 / 100)"
    by (simp add: spec_top_scoring_def items9_def std_sort_def)
  from run a b c show ?thesis by simp
qed

subsection \<open>Failure and the state\<close>







subsection \<open>The maximum of a score map\<close>







subsection \<open>MatchTemplate\<close>











lemma disk_fill_sel [simp]:
  "cols (disk_fill m p rad v) = cols m" "rows (disk_fill m p rad v) = rows m"
  "mtype (disk_fill m p rad v) = mtype m"
  "elem (disk_fill m p rad v) c r =
     (if (c - xi p) * (c - xi p) + (r - yi p) * (r - yi p) \<le> rad * rad then v else elem m c r)"
  by (simp_all add: disk_fill_def)


lemma scoreMapB_sel [simp]:
  "cols scoreMapB = 20" "rows scoreMapB = 3"
  "elem scoreMapB c r =
     (if c = 0 \<and> r = 1 then 9 / 10 else if c = 18 \<and> r = 1 then 8 / 10 else 1 / 10)"
  by (simp_all add: scoreMapB_def)

lemma image39_sel [simp]: "cols image39 = 39" "rows image39 = 22"
  by (simp_all add: image39_def)

lemma template20_sel [simp]: "cols template20 = 20" "rows template20 = 20"
  by (simp_all add: template20_def)





subsection \<open>FindMoveTargets\<close>








lemma scoreMapC_sel [simp]:
  "cols scoreMapC = 40" "rows scoreMapC = 13"
  "elem scoreMapC c r =
     (if c = 30 \<and> r = 1 then 9 / 10 else if c = 5 \<and> r = 1 then 8 / 10 else 0)"
  by (simp_all add: scoreMapC_def)

lemma small11_sel [simp]:
  "cols small11 = 11" "rows small11 = 11" "mtype small11 = CV_32FC1"
  "elem small11 c r = (if c = 5 \<and> r = 5 then 95 / 100 else 0)"
  by (simp_all add: small11_def)

lemma image59_sel [simp]:
  "cols image59 = 59" "rows image59 = 32" "mtype image59 = CV_8UC1"
  "cols image59' = 59" "rows image59' = 32" "mtype image59' = CV_8UC1"
  "elem image59 c r = 128" "elem image59' c r = (if c = 50 \<and> r = 25 then 7 else 128)"
  by (simp_all add: image59_def image59'_def)

lemma moveSearchImage_sel [simp]:
  "cols (moveSearchImage img rl rr) = cols img" "rows (moveSearchImage img rl rr) = rows img"
  by (simp_all add: moveSearchImage_def copyTo_roi_def Mat_zeros_def)












subsection \<open>Save and Load\<close>

lemma fixed3_near: "\<bar>fixed3 v - v\<bar> \<le> 1 / 2000"
proof -
  have "\<bar>real_of_int (cvRound (v * 1000)) - v * 1000\<bar> \<le> 1 / 2" by (rule cvRound_near)
  then have "\<bar>(real_of_int (cvRound (v * 1000)) - v * 1000) / 1000\<bar> \<le> (1 / 2) / 1000"
    by (simp del: times_divide_eq_left)
  then show ?thesis by (simp add: fixed3_def diff_divide_distrib)
qed

lemma get_or_Some [simp]: "get_or d (Some a) = a"
  by (simp add: get_or_def)

lemma load_save_point [simp]:
  "load_pixel (save_point (p, w)) = mkPoint2d (fixed3 (xd p)) (fixed3 (yd p))"
  "load_world (save_point (p, w)) = mkPoint2d (fixed3 (xd w)) (fixed3 (yd w))"
  by (simp_all add: load_pixel_def load_world_def save_point_def)

lemma load_save_line [simp]: "load_line (save_line l) = l"
  by (simp add: load_line_def save_line_def mkLineEnds_def mkPoint_def)

lemma load_save_rect [simp]: "load_rect (save_rect r) = r"
  by (simp add: load_rect_def save_rect_def mkRect_def)

lemma loaded_length:
  assumes "length (pixelPoints (m_model c)) = length (worldPoints (m_model c))"
  shows "length (loaded_pixels c) = length (pixelPoints (m_model c))"
    and "length (loaded_worlds c) = length (worldPoints (m_model c))"
  using assms by (simp_all add: loaded_pixels_def loaded_worlds_def)

lemma loaded_nth:
  assumes "length (pixelPoints (m_model c)) = length (worldPoints (m_model c))"
    and "i < length (pixelPoints (m_model c))"
  shows "loaded_pixels c ! i
           = mkPoint2d (fixed3 (xd (pixelPoints (m_model c) ! i)))
                       (fixed3 (yd (pixelPoints (m_model c) ! i)))"
    and "loaded_worlds c ! i
           = mkPoint2d (fixed3 (xd (worldPoints (m_model c) ! i)))
                       (fixed3 (yd (worldPoints (m_model c) ! i)))"
  using assms by (simp_all add: loaded_pixels_def loaded_worlds_def)

lemma Save_ok:
  assumes "Save c path fs = (GC_OK, fs')"
  shows "files fs' path = Some (Json (model_json c))"
    and "length (pixelPoints (m_model c)) = length (worldPoints (m_model c))"
    and "2 \<le> width (gridSize (m_model c))" and "4 \<le> height (gridSize (m_model c))"
  using assms by (auto simp: Save_def split: if_splits)

lemma CalcSearchSwaths_frame:
  assumes "CalcSearchSwaths c = Some (s, c')"
  shows "pixelPoints (m_model c') = pixelPoints (m_model c)"
    and "worldPoints (m_model c') = worldPoints (m_model c)"
    and "gridSize (m_model c') = gridSize (m_model c)"
    and "m_imgSize c' = m_imgSize c"
  using assms unfolding CalcSearchSwaths_def Let_def
  by (auto split: if_splits bind_splits)

text \<open>
  The search lines are a function of the points, the grid size and the image size: a
  calibration that holds the lines computed from its own points is a fixed point.
\<close>

lemma CalcSearchSwaths_lines_eq:
  assumes "CalcSearchSwaths c = Some (GC_OK, c1)" and "CalcSearchSwaths d = Some (GC_OK, d1)"
    and "pixelPoints (m_model d) = pixelPoints (m_model c)"
    and "gridSize (m_model d) = gridSize (m_model c)"
    and "m_imgSize d = m_imgSize c"
  shows "searchLines (m_model d1) = searchLines (m_model c1)"
  using assms unfolding CalcSearchSwaths_def Let_def
  by (auto split: if_splits bind_splits)

lemma CalcSearchSwaths_stable:
  assumes "CalcSearchSwaths c = Some (GC_OK, c4)"
    and "pixelPoints (m_model d) = pixelPoints (m_model c)"
    and "worldPoints (m_model d) = worldPoints (m_model c)"
    and "gridSize (m_model d) = gridSize (m_model c)"
    and "m_imgSize d = m_imgSize c"
    and "searchLines (m_model d) = searchLines (m_model c4)"
  shows "CalcSearchSwaths d = Some (GC_OK, d)"
  using assms unfolding CalcSearchSwaths_def Let_def
  by (auto split: if_splits bind_splits)

lemma Calibrate_ok:
  assumes "Calibrate env c pp wp gs isz img False False False = Some (GC_OK, c')"
  shows "pixelPoints (m_model c') = pp \<and> worldPoints (m_model c') = wp \<and>
    gridSize (m_model c') = gs \<and> m_imgSize c' = isz \<and>
    CalcSearchSwaths c' = Some (GC_OK, c')"
proof -
  from assms obtain h1 h2 c4 a b where
    cs: "CalcSearchSwaths
          (c\<lparr>m_model := (CalibModel_clear env (m_model c))
               \<lparr>gridSize := gs, pixelPoints := pp, worldPoints := wp\<rparr>,
             m_imgSize := isz, m_matHomogPixToWorld := h1, m_matHomogWorldToPix := h2\<rparr>)
         = Some (GC_OK, c4)"
    and c'': "c' = c4\<lparr>m_model := (m_model c4)
               \<lparr>moveSearchRegionLft := a, moveSearchRegionRgt := b\<rparr>\<rparr>"
    unfolding Calibrate_def Let_def
    by (auto split: if_splits sum.splits bind_splits prod.splits)
  note fr = CalcSearchSwaths_frame [OF cs]
  have p: "pixelPoints (m_model c') = pp" "worldPoints (m_model c') = wp"
    "gridSize (m_model c') = gs" "m_imgSize c' = isz"
    using fr by (simp_all add: c'')
  have "CalcSearchSwaths c' = Some (GC_OK, c')"
    by (rule CalcSearchSwaths_stable [OF cs]) (simp_all add: p, simp add: c'')
  with p show ?thesis by simp
qed

text \<open>\<open>Load\<close> of a file that \<open>Save\<close> wrote is \<open>Calibrate\<close> on the points as printed.\<close>

lemma Load_saved:
  assumes "files fs path = Some (Json (model_json c))"
    and "2 \<le> width (gridSize (m_model c))" and "4 \<le> height (gridSize (m_model c))"
    and "Load env fs c0 path = Some (GC_OK, c')"
  shows "\<exists>c6. Calibrate env c6 (loaded_pixels c) (loaded_worlds c) (gridSize (m_model c))
            (m_imgSize c) (Mat_zeros 0 0 CV_8UC1) False False False = Some (GC_OK, c')"
proof -
  have nn: "int (nat (width (gridSize (m_model c)))) = width (gridSize (m_model c))"
    "int (nat (height (gridSize (m_model c)))) = height (gridSize (m_model c))"
    using assms(2,3) by simp_all
  have eta: "mkSize (width sz) (height sz) = sz" for sz
    by (simp add: mkSize_def)
  from assms(4) assms(2,3) show ?thesis
    unfolding Load_def Let_def loaded_pixels_def loaded_worlds_def
    by (auto simp: assms(1) model_json_def nn eta split: if_splits)
qed


lemma fixed_points_loaded:
  assumes "length pp = length wp"
    and "\<forall>p \<in> set pp. fixed3 (xd p) = xd p \<and> fixed3 (yd p) = yd p"
  shows "map load_pixel (map save_point (zip pp wp)) = pp"
  using assms
proof (induction pp wp rule: list_induct2)
  case Nil
  then show ?case by simp
next
  case (Cons p ps w ws)
  then show ?case by (simp add: mkPoint2d_def)
qed

text \<open>
  C7, amended. When \<open>Save\<close> succeeds and \<open>Load\<close> of the file it wrote succeeds, the loaded
  calibration has the image size and the grid size of the saved one and as many points;
  each coordinate of a pixel or world point is within 0.0005 of the saved one (the file
  holds three decimals). The search lines are not those of the file: they are the lines
  \<open>CalcSearchSwaths\<close> computes from the loaded points. They are the saved lines when the
  saved pixel points have at most three decimals and the saved lines had been computed
  from them.
\<close>

theorem Save_Load_roundtrip:
  assumes "Save c path fs = (GC_OK, fs')" and "Load env fs' c0 path = Some (GC_OK, c')"
  shows "m_imgSize c' = m_imgSize c \<and> gridSize (m_model c') = gridSize (m_model c) \<and>
     length (pixelPoints (m_model c')) = length (pixelPoints (m_model c)) \<and>
     length (worldPoints (m_model c')) = length (worldPoints (m_model c)) \<and>
     (\<forall>i < length (pixelPoints (m_model c)).
        \<bar>xd (pixelPoints (m_model c') ! i) - xd (pixelPoints (m_model c) ! i)\<bar> \<le> 1 / 2000 \<and>
        \<bar>yd (pixelPoints (m_model c') ! i) - yd (pixelPoints (m_model c) ! i)\<bar> \<le> 1 / 2000 \<and>
        \<bar>xd (worldPoints (m_model c') ! i) - xd (worldPoints (m_model c) ! i)\<bar> \<le> 1 / 2000 \<and>
        \<bar>yd (worldPoints (m_model c') ! i) - yd (worldPoints (m_model c) ! i)\<bar> \<le> 1 / 2000) \<and>
     CalcSearchSwaths c' = Some (GC_OK, c') \<and>
     ((\<forall>p \<in> set (pixelPoints (m_model c)). fixed3 (xd p) = xd p \<and> fixed3 (yd p) = yd p) \<and>
      CalcSearchSwaths c = Some (GC_OK, c) \<longrightarrow>
        pixelPoints (m_model c') = pixelPoints (m_model c) \<and>
        searchLines (m_model c') = searchLines (m_model c))"
proof -
  note sv = Save_ok [OF assms(1)]
  from Load_saved [OF sv(1,3,4) assms(2)] obtain c6 where
    cal: "Calibrate env c6 (loaded_pixels c) (loaded_worlds c) (gridSize (m_model c))
            (m_imgSize c) (Mat_zeros 0 0 CV_8UC1) False False False = Some (GC_OK, c')"
    by blast
  note ok = Calibrate_ok [OF cal]
  from ok have pp: "pixelPoints (m_model c') = loaded_pixels c"
    and wp: "worldPoints (m_model c') = loaded_worlds c"
    and gs: "gridSize (m_model c') = gridSize (m_model c)"
    and isz: "m_imgSize c' = m_imgSize c"
    and stable: "CalcSearchSwaths c' = Some (GC_OK, c')"
    by simp_all
  have len: "length (pixelPoints (m_model c')) = length (pixelPoints (m_model c))"
    "length (worldPoints (m_model c')) = length (worldPoints (m_model c))"
    by (simp_all add: pp wp loaded_length [OF sv(2)])
  have near: "\<bar>xd (pixelPoints (m_model c') ! i) - xd (pixelPoints (m_model c) ! i)\<bar> \<le> 1 / 2000 \<and>
        \<bar>yd (pixelPoints (m_model c') ! i) - yd (pixelPoints (m_model c) ! i)\<bar> \<le> 1 / 2000 \<and>
        \<bar>xd (worldPoints (m_model c') ! i) - xd (worldPoints (m_model c) ! i)\<bar> \<le> 1 / 2000 \<and>
        \<bar>yd (worldPoints (m_model c') ! i) - yd (worldPoints (m_model c) ! i)\<bar> \<le> 1 / 2000"
    if "i < length (pixelPoints (m_model c))" for i
    using fixed3_near by (simp add: pp wp loaded_nth [OF sv(2) that] mkPoint2d_def)
  have exact: "pixelPoints (m_model c') = pixelPoints (m_model c) \<and>
        searchLines (m_model c') = searchLines (m_model c)"
    if h: "(\<forall>p \<in> set (pixelPoints (m_model c)). fixed3 (xd p) = xd p \<and> fixed3 (yd p) = yd p) \<and>
      CalcSearchSwaths c = Some (GC_OK, c)"
  proof -
    from h have "map load_pixel (map save_point
          (zip (pixelPoints (m_model c)) (worldPoints (m_model c)))) = pixelPoints (m_model c)"
      by (intro fixed_points_loaded [OF sv(2)]) blast
    then have e: "pixelPoints (m_model c') = pixelPoints (m_model c)"
      unfolding pp loaded_pixels_def .
    from h have "CalcSearchSwaths c = Some (GC_OK, c)" by simp
    from CalcSearchSwaths_lines_eq [OF this stable e gs isz] e show ?thesis by simp
  qed
  from isz gs len near stable exact show ?thesis by blast
qed


lemma env0_fields:
  "GC_BOWTIE_TEMPLATE_DIM env0 = 40"
  "CalibModel_clear env0 m = m\<lparr>pixelPoints := [], worldPoints := [], searchLines := []\<rparr>"
  "findHomography env0 a b = Inr identity3"
  by (simp_all add: env0_def identity3_def)

lemma cvRound_unique:
  assumes "\<bar>v - real_of_int k\<bar> < 1 / 2"
  shows "cvRound v = k"
proof -
  from assms have "real_of_int k - 1 / 2 < v" "v < real_of_int k + 1 / 2" by linarith+
  then have "\<lfloor>v\<rfloor> = k \<or> \<lfloor>v\<rfloor> = k - 1" by linarith
  then show ?thesis
    using assms unfolding cvRound_def Let_def by (auto; linarith)
qed

lemma cvRound_half_cases [simp]:
  "cvRound (1 / 2) = 0" "cvRound (3 / 2) = 2"
  by (simp_all add: cvRound_def Let_def)

lemma cvRound_gridS [simp]:
  "cvRound (3751 / 2500) = 2" "cvRound (3751 / 7500) = 1" "cvRound (7502 / 5) = 1500"
  "cvRound (11251 / 7500) = 2" "cvRound (3751 / 3750) = 1"
  by (rule cvRound_unique, simp)+

lemma fixed3_gridS [simp]: "fixed3 (3751 / 2500) = 3 / 2" "fixed3 (3 / 2) = 3 / 2"
  "fixed3 0 = 0" "fixed3 (numeral k) = numeral k"
  by (simp_all add: fixed3_def)

lemma swaths_gridS:
  assumes "pixelPoints (m_model c) = gridS" "worldPoints (m_model c) = gridS"
    "gridSize (m_model c) = mkSize 2 4" "m_imgSize c = mkSize 640 480"
  shows "CalcSearchSwaths c
     = Some (GC_OK, c\<lparr>m_model := (m_model c)\<lparr>searchLines :=
         [mkLineEnds (mkPoint 1 (- 5)) (mkPoint 1 79),
          mkLineEnds (mkPoint 2 (- 5)) (mkPoint 1 79)]\<rparr>\<rparr>)"
  unfolding CalcSearchSwaths_def Let_def
  by (simp add: assms gridS_def vec_at_def eval_nat_numeral)

lemma swaths_gridL:
  assumes "pixelPoints (m_model c) = gridL" "worldPoints (m_model c) = gridL"
    "gridSize (m_model c) = mkSize 2 4" "m_imgSize c = mkSize 640 480"
  shows "CalcSearchSwaths c
     = Some (GC_OK, c\<lparr>m_model := (m_model c)\<lparr>searchLines :=
         [mkLineEnds (mkPoint 0 (- 5)) (mkPoint 0 79)]\<rparr>\<rparr>)"
  unfolding CalcSearchSwaths_def Let_def
  by (simp add: assms gridL_def vec_at_def eval_nat_numeral)

lemma Calibrate_gridS:
  "Calibrate env0 calib0 gridS gridS (mkSize 2 4) (mkSize 640 480) noImage False False False
     = Some (GC_OK, calibS)"
  unfolding Calibrate_def Let_def
  apply (simp add: env0_fields swaths_gridS)
  apply (simp add: gridS_def vec_at_def moveSearchRegion_def calibS_def calib0_def model0_def)
  done

lemma Calibrate_gridL:
  "Calibrate env0 c gridL gridL (mkSize 2 4) (mkSize 640 480) (Mat_zeros 0 0 CV_8UC1)
       False False False
     = Some (GC_OK, calibL)"
  unfolding Calibrate_def Let_def
  apply (simp add: env0_fields swaths_gridL)
  apply (simp add: gridL_def vec_at_def moveSearchRegion_def calibL_def)
  done

lemma Save_calibS: "Save calibS ''cal.json'' disk0 = (GC_OK, diskS)"
  by (simp add: Save_def calibS_def gridS_def disk0_def diskS_def)

lemma Save_calibL: "Save calibL ''cal.json'' disk0 = (GC_OK, diskL)"
  by (simp add: Save_def calibL_def gridL_def disk0_def diskL_def)

lemma loaded_gridS: "map load_pixel (map save_point (zip gridS gridS)) = gridL"
  "map load_world (map save_point (zip gridS gridS)) = gridL"
  by (simp_all add: gridS_def gridL_def)

lemma loaded_gridL: "map load_pixel (map save_point (zip gridL gridL)) = gridL"
  "map load_world (map save_point (zip gridL gridL)) = gridL"
  by (simp_all add: gridL_def)

lemma calibS_fields:
  "pixelPoints (m_model calibS) = gridS" "worldPoints (m_model calibS) = gridS"
  "gridSize (m_model calibS) = mkSize 2 4" "m_imgSize calibS = mkSize 640 480"
  "searchLines (m_model calibS)
     = [mkLineEnds (mkPoint 1 (- 5)) (mkPoint 1 79), mkLineEnds (mkPoint 2 (- 5)) (mkPoint 1 79)]"
  by (simp_all add: calibS_def)

lemma calibL_fields:
  "pixelPoints (m_model calibL) = gridL" "worldPoints (m_model calibL) = gridL"
  "gridSize (m_model calibL) = mkSize 2 4" "m_imgSize calibL = mkSize 640 480"
  "searchLines (m_model calibL) = [mkLineEnds (mkPoint 0 (- 5)) (mkPoint 0 79)]"
  by (simp_all add: calibL_def)

lemma Load_diskS: "Load env0 diskS c0 ''cal.json'' = Some (GC_OK, calibL)"
  unfolding Load_def Let_def
  by (simp add: diskS_def model_json_def calibS_fields loaded_gridS [simplified] gridL_def
        Calibrate_gridL [unfolded gridL_def])

lemma Load_diskL: "Load env0 diskL c0 ''cal.json'' = Some (GC_OK, calibL)"
  unfolding Load_def Let_def
  by (simp add: diskL_def model_json_def calibL_fields loaded_gridL [simplified] gridL_def
        Calibrate_gridL [unfolded gridL_def])

text \<open>
  C7, as stated, fails for the search lines. \<open>calibS\<close> is the calibration \<open>Calibrate\<close>
  makes of a grid whose top row is 1.5004 pixels wide: it has two search lines. The file
  holds 1.500 for that coordinate, and \<open>Load\<close> computes the lines again from the loaded
  points: the loaded calibration has one search line, at another place.
\<close>

theorem Save_Load_lines_counterexample:
  "Calibrate env0 calib0 gridS gridS (mkSize 2 4) (mkSize 640 480) noImage False False False
     = Some (GC_OK, calibS) \<and>
   Save calibS ''cal.json'' disk0 = (GC_OK, diskS) \<and>
   Load env0 diskS calibS ''cal.json'' = Some (GC_OK, calibL) \<and>
   searchLines (m_model calibS)
     = [mkLineEnds (mkPoint 1 (- 5)) (mkPoint 1 79), mkLineEnds (mkPoint 2 (- 5)) (mkPoint 1 79)] \<and>
   searchLines (m_model calibL) = [mkLineEnds (mkPoint 0 (- 5)) (mkPoint 0 79)]"
  using Calibrate_gridS Save_calibS Load_diskS [of calibS] calibS_fields(5) calibL_fields(5)
  by simp

theorem Save_Load_roundtrip_witness:
  "Save calibS ''cal.json'' disk0 = (GC_OK, diskS) \<and>
   Load env0 diskS calib0 ''cal.json'' = Some (GC_OK, calibL) \<and>
   gridSize (m_model calibL) = gridSize (m_model calibS) \<and>
   \<bar>xd (pixelPoints (m_model calibL) ! 1) - xd (pixelPoints (m_model calibS) ! 1)\<bar> \<le> 1 / 2000 \<and>
   CalcSearchSwaths calibL = Some (GC_OK, calibL) \<and>
   Save calibL ''cal.json'' disk0 = (GC_OK, diskL) \<and>
   Load env0 diskL calib0 ''cal.json'' = Some (GC_OK, calibL) \<and>
   fixed3 (3 / 2) = 3 / 2 \<and>
   searchLines (m_model calibL) = searchLines (m_model calibL)"
proof -
  note rt = Save_Load_roundtrip [OF Save_calibS Load_diskS [of calib0]]
  have one: "1 < length (pixelPoints (m_model calibS))"
    by (simp add: calibS_fields gridS_def)
  from rt have g: "gridSize (m_model calibL) = gridSize (m_model calibS)"
    and st: "CalcSearchSwaths calibL = Some (GC_OK, calibL)" by blast+
  from rt one
  have n: "\<bar>xd (pixelPoints (m_model calibL) ! 1) - xd (pixelPoints (m_model calibS) ! 1)\<bar>
      \<le> 1 / 2000"
    by blast
  have ex: "\<forall>p \<in> set (pixelPoints (m_model calibL)). fixed3 (xd p) = xd p \<and> fixed3 (yd p) = yd p"
    by (simp add: calibL_fields gridL_def)
  from Save_Load_roundtrip [OF Save_calibL Load_diskL [of calib0]] ex st
  have "searchLines (m_model calibL) = searchLines (m_model calibL)" by blast
  with g n st Save_calibS Save_calibL Load_diskS [of calib0] Load_diskL [of calib0]
  show ?thesis by simp
qed

end
